theory Spec2Isabelle
  imports Complex_Main
begin

section \<open>Foundation design tool: formulas, width-list parser and Monte Carlo study\<close>

text \<open>
  The development embeds \<^verbatim>\<open>app.py\<close>. In the formulas and in the study Python
  floats are modelled by the real numbers: rounding, overflow and the non-finite
  values of IEEE arithmetic are not represented there. Every Python division is written with \<open>py_div\<close>, so that the
  \<^verbatim>\<open>ZeroDivisionError\<close> of a zero divisor is a value of the model. Division by a
  non-zero literal (\<^verbatim>\<open>phi / 2\<close>, \<^verbatim>\<open>B / 2\<close>, \<^verbatim>\<open>g_var / 100\<close>) cannot raise
  and is written with the division of the reals.
\<close>

subsection \<open>Errors and module constants\<close>

datatype error =
    ZeroDivisionError
  | StError string

definition py_div :: "real \<Rightarrow> real \<Rightarrow> error + real" where
  "py_div a b = (if b = 0 then Inl ZeroDivisionError else Inr (a / b))"

definition default_FS_bearing :: real where
  "default_FS_bearing = 3"

definition FS_slide_req :: real where
  "FS_slide_req = 15 / 10"

definition FS_ot_req :: real where
  "FS_ot_req = 2"

definition settle_limit :: real where
  "settle_limit = 25"

subsection \<open>Helper functions (lines 19 to 50)\<close>

text \<open>\<^verbatim>\<open>math.radians(x)\<close>.\<close>

definition radians :: "real \<Rightarrow> real" where
  "radians x = x * (pi / 180)"

text \<open>
  \<^verbatim>\<open>bearing_capacity_q_ult(c, gamma, Df, B, phi)\<close>: no statement of the function
  raises for a width, so the model is a total real-valued function. \<open>tan\<close> and
  \<open>exp\<close> are the real functions; at its poles, which no friction angle between 0
  and 45 degrees reaches, the tangent of the reals is 0 where Python's is a large
  float.
\<close>

definition bearing_capacity_q_ult :: "real \<Rightarrow> real \<Rightarrow> real \<Rightarrow> real \<Rightarrow> real \<Rightarrow> real" where
  "bearing_capacity_q_ult c gamma Df B phi =
     (let phi_rad = radians phi;
          Nc = 514 / 100;
          (Nq, Ngamma) =
            (if phi > 0
             then (let Nq = exp (pi * tan phi_rad) * (tan (radians (45 + phi / 2))) ^ 2;
                       Ngamma = 2 * (Nq + 1) * tan phi_rad
                   in (Nq, Ngamma))
             else (1, 0))
      in c * Nc + gamma * Df * Nq + (5 / 10) * gamma * B * Ngamma)"

definition sliding_fs :: "real \<Rightarrow> real \<Rightarrow> real \<Rightarrow> error + real" where
  "sliding_fs P H mu = (if H \<noteq> 0 then py_div (P * mu) H else Inr 999)"

definition overturning_fs :: "real \<Rightarrow> real \<Rightarrow> real \<Rightarrow> error + real" where
  "overturning_fs P B M =
     (let MR = P * (B / 2);
          MO = M
      in if MO \<noteq> 0 then py_div MR MO else Inr 999)"

definition settlement_elastic :: "real \<Rightarrow> real \<Rightarrow> real \<Rightarrow> real \<Rightarrow> real \<Rightarrow> real \<Rightarrow> error + real" where
  "settlement_elastic P B L Es nu influence_I =
     (let A = B * L
      in case py_div P A of
           Inl e \<Rightarrow> Inl e
         | Inr q \<Rightarrow> py_div (influence_I * q * B * (1 - nu ^ 2)) Es)"

subsection \<open>The width-list parser (lines 53 to 63)\<close>

























subsection \<open>The seeded random source\<close>

text \<open>
  \<^verbatim>\<open>random.Random(seed)\<close> belongs to the Python library, not to the program. The
  generator is modelled by the sequence of the values that its successive
  \<^verbatim>\<open>random()\<close> calls return; a draw returns the head and leaves the rest.
  \<^verbatim>\<open>uniform(a, b)\<close> is the library's \<^verbatim>\<open>a + (b - a) * self.random()\<close>.
  The constructor is a parameter \<open>Random\<close> of the study, from seeds to sequences.
\<close>

type_synonym rng = "nat \<Rightarrow> real"

definition shift :: "rng \<Rightarrow> nat \<Rightarrow> rng" where
  "shift g k = (\<lambda>n. g (n + k))"

definition rng_random :: "rng \<Rightarrow> real \<times> rng" where
  "rng_random g = (g 0, shift g 1)"

definition rng_uniform :: "real \<Rightarrow> real \<Rightarrow> rng \<Rightarrow> real \<times> rng" where
  "rng_uniform a b g = (case rng_random g of (r, g') \<Rightarrow> (a + (b - a) * r, g'))"

subsection \<open>Full foundation design (lines 204 to 286)\<close>

text \<open>
  The values of the sidebar widgets. The fields carry the prefix \<open>ui_\<close> because the
  source's one-letter names are also the parameter names of the helper functions.
  The three sliders of the uncertainty section and the iteration slider return
  Python ints.
\<close>

record inputs =
  ui_L :: real
  ui_Df :: real
  ui_c :: real
  ui_phi :: real
  ui_gamma :: real
  ui_P :: real
  ui_H :: real
  ui_M :: real
  ui_Es :: real
  ui_nu :: real
  ui_mu :: real
  ui_I :: real
  ui_B_text :: string
  ui_iterations :: int
  ui_seed :: int
  ui_g_var :: int
  ui_P_var :: int
  ui_Es_var :: int
  ui_FS_bearing :: real

text \<open>
  Lines 253 to 255: the three draws of one trial, in the order of the source
  (\<^verbatim>\<open>gamma_r\<close>, \<^verbatim>\<open>Es_r\<close>, \<^verbatim>\<open>P_r\<close>). The result is the triple
  \<open>(gamma_r, Es_r, P_r)\<close> and the generator after the draws.
\<close>

definition sample_params :: "inputs \<Rightarrow> rng \<Rightarrow> (real \<times> real \<times> real) \<times> rng" where
  "sample_params inp g =
     (case rng_uniform (1 - real_of_int (ui_g_var inp) / 100)
                       (1 + real_of_int (ui_g_var inp) / 100) g of (ug, g1) \<Rightarrow>
      case rng_uniform (1 - real_of_int (ui_Es_var inp) / 100)
                       (1 + real_of_int (ui_Es_var inp) / 100) g1 of (ue, g2) \<Rightarrow>
      case rng_uniform (1 - real_of_int (ui_P_var inp) / 100)
                       (1 + real_of_int (ui_P_var inp) / 100) g2 of (up, g3) \<Rightarrow>
        ((ui_gamma inp * ug, ui_Es inp * ue, ui_P inp * up), g3))"

text \<open>Lines 257 to 276: the four checks of one trial on a sampled triple.\<close>

definition trial_passes :: "inputs \<Rightarrow> real \<Rightarrow> real \<times> real \<times> real \<Rightarrow> error + bool" where
  "trial_passes inp B smp =
     (case smp of (gamma_r, Es_r, P_r) \<Rightarrow>
      let q_ult = bearing_capacity_q_ult (ui_c inp) gamma_r (ui_Df inp) B (ui_phi inp)
      in case py_div q_ult (ui_FS_bearing inp) of Inl e \<Rightarrow> Inl e | Inr q_allow \<Rightarrow>
         case py_div P_r (B * ui_L inp) of Inl e \<Rightarrow> Inl e | Inr q_apply \<Rightarrow>
         case sliding_fs P_r (ui_H inp) (ui_mu inp) of Inl e \<Rightarrow> Inl e | Inr FSs \<Rightarrow>
         case overturning_fs P_r B (ui_M inp) of Inl e \<Rightarrow> Inl e | Inr FSo \<Rightarrow>
         case settlement_elastic P_r B (ui_L inp) Es_r (ui_nu inp) (ui_I inp) of
           Inl e \<Rightarrow> Inl e
         | Inr s0 \<Rightarrow>
             (let s = s0 * 1000
              in Inr (q_allow \<ge> q_apply \<and> FSs \<ge> FS_slide_req
                      \<and> FSo \<ge> FS_ot_req \<and> s \<le> settle_limit)))"

text \<open>Lines 253 to 276: one pass through the body of the inner loop.\<close>

definition mc_trial :: "inputs \<Rightarrow> real \<Rightarrow> rng \<Rightarrow> error + (bool \<times> rng)" where
  "mc_trial inp B g =
     (case sample_params inp g of (smp, g') \<Rightarrow>
        (case trial_passes inp B smp of Inl e \<Rightarrow> Inl e | Inr passes \<Rightarrow> Inr (passes, g')))"

text \<open>
  The inner loop \<^verbatim>\<open>for _ in range(iterations)\<close> with its counter
  \<^verbatim>\<open>safe_count\<close>; the first argument is the number of rounds left.
\<close>

fun trial_loop :: "inputs \<Rightarrow> real \<Rightarrow> nat \<Rightarrow> nat \<Rightarrow> rng \<Rightarrow> error + (nat \<times> rng)" where
  "trial_loop inp B 0 safe_count g = Inr (safe_count, g)"
| "trial_loop inp B (Suc n) safe_count g =
     (case mc_trial inp B g of
        Inl e \<Rightarrow> Inl e
      | Inr (passes, g') \<Rightarrow>
          trial_loop inp B n (if passes then safe_count + 1 else safe_count) g')"

text \<open>
  The outer loop over \<^verbatim>\<open>B_list\<close>, lines 249 to 284. \<^verbatim>\<open>range(iterations)\<close> is
  empty for a non-positive \<^verbatim>\<open>iterations\<close>. The progress bar update divides by
  \<^verbatim>\<open>len(B_list)\<close>, which is positive inside the loop, and changes only the
  display; it is left out.
\<close>

fun width_loop :: "inputs \<Rightarrow> real list \<Rightarrow> (real \<times> real) list \<Rightarrow> rng \<Rightarrow> error + (real \<times> real) list" where
  "width_loop inp [] results g = Inr results"
| "width_loop inp (B # Bs) results g =
     (case trial_loop inp B (nat (ui_iterations inp)) 0 g of
        Inl e \<Rightarrow> Inl e
      | Inr (safe_count, g') \<Rightarrow>
          (case py_div (real safe_count) (real_of_int (ui_iterations inp)) of
             Inl e \<Rightarrow> Inl e
           | Inr ratio \<Rightarrow>
               (let safety_percent = ratio * 100
                in width_loop inp Bs (results @ [(B, safety_percent)]) g')))"

text \<open>Lines 245 to 286, for a list of finite widths and the seeded generator.\<close>

definition mc_study :: "inputs \<Rightarrow> real list \<Rightarrow> rng \<Rightarrow> error + (real \<times> real) list" where
  "mc_study inp B_list g = width_loop inp B_list [] g"




subsection \<open>The study as the specification describes it\<close>

text \<open>
  The number of passing trials among \<open>n\<close> consecutive trials of width \<open>B\<close>, trial
  \<open>j\<close> reading its three draws from position \<open>3 * j\<close> of the sequence; the
  reliability percentage \<open>100 * passCount / iterations\<close>; and the list of results,
  one per width in input order, the width at index \<open>i\<close> starting at position
  \<open>3 * iterations * i\<close> of the one shared sequence.
\<close>

definition pass_count :: "inputs \<Rightarrow> real \<Rightarrow> rng \<Rightarrow> nat \<Rightarrow> nat" where
  "pass_count inp B g n =
     length (filter (\<lambda>j. trial_passes inp B (fst (sample_params inp (shift g (3 * j)))) = Inr True)
                    [0..<n])"

definition reliability_percent :: "inputs \<Rightarrow> real \<Rightarrow> rng \<Rightarrow> real" where
  "reliability_percent inp B g =
     100 * real (pass_count inp B g (nat (ui_iterations inp))) / real_of_int (ui_iterations inp)"

definition study_results :: "inputs \<Rightarrow> real list \<Rightarrow> rng \<Rightarrow> (real \<times> real) list" where
  "study_results inp ws g =
     map (\<lambda>(i, B). (B, reliability_percent inp B (shift g (3 * nat (ui_iterations inp) * i))))
         (enumerate 0 ws)"

text \<open>
  The sample of the trial of number \<open>k\<close> of a run, counted from 0 through all
  widths: the unit weight takes the value of position \<open>3 * k\<close> of the sequence,
  the modulus the next one, the load the one after; each is the nominal value times
  a factor uniform between \<open>1 - p / 100\<close> and \<open>1 + p / 100\<close>.
\<close>

definition perturbed :: "real \<Rightarrow> int \<Rightarrow> real \<Rightarrow> real" where
  "perturbed nominal p u =
     nominal * ((1 - real_of_int p / 100)
                + ((1 + real_of_int p / 100) - (1 - real_of_int p / 100)) * u)"

definition trial_sample :: "inputs \<Rightarrow> rng \<Rightarrow> nat \<Rightarrow> real \<times> real \<times> real" where
  "trial_sample inp g k =
     (perturbed (ui_gamma inp) (ui_g_var inp) (g (3 * k)),
      perturbed (ui_Es inp) (ui_Es_var inp) (g (3 * k + 1)),
      perturbed (ui_P inp) (ui_P_var inp) (g (3 * k + 2)))"

text \<open>The bearing capacity factors of the specification.\<close>

definition Nq_spec :: "real \<Rightarrow> real" where
  "Nq_spec phi =
     (if phi > 0 then exp (pi * tan (radians phi)) * (tan (radians (45 + phi / 2))) ^ 2 else 1)"

definition Ngamma_spec :: "real \<Rightarrow> real" where
  "Ngamma_spec phi = (if phi > 0 then 2 * (Nq_spec phi + 1) * tan (radians phi) else 0)"


subsection \<open>Sample data\<close>

text \<open>
  The default values of the sidebar, with a purely cohesive soil of cohesion 60 kPa,
  no uncertainty on unit weight and modulus and 30 percent on the load, and 50
  iterations; and a random sequence whose first 150 values are 0 and whose later
  values are 0.9.
\<close>

definition example_inputs :: inputs where
  "example_inputs =
     \<lparr> ui_L = 2, ui_Df = 1, ui_c = 60, ui_phi = 0, ui_gamma = 18,
       ui_P = 500, ui_H = 80, ui_M = 150,
       ui_Es = 30000, ui_nu = 3 / 10, ui_mu = 1 / 2, ui_I = 1,
       ui_B_text = ''3,2'', ui_iterations = 50, ui_seed = 42,
       ui_g_var = 0, ui_P_var = 30, ui_Es_var = 0, ui_FS_bearing = 3 \<rparr>"

definition example_rng :: rng where
  "example_rng n = (if 150 \<le> n then 9 / 10 else 0)"

text \<open>
  A second sequence, equal to the first on its first 300 values only; a third,
  different from the first at position 2 only, the load of the first trial; and the
  sample inputs without uncertainty on the load.
\<close>

definition example_rng2 :: rng where
  "example_rng2 n = (if 150 \<le> n \<and> n < 300 then 9 / 10 else 0)"

definition example_rng3 :: rng where
  "example_rng3 n = (if n = 2 \<or> 150 \<le> n then 9 / 10 else 0)"

definition example_inputs_exact :: inputs where
  "example_inputs_exact = example_inputs \<lparr> ui_P_var := 0 \<rparr>"

section \<open>Properties\<close>

subsection \<open>Closed forms of the helper functions and of the loops\<close>

lemma shift_zero: "shift g 0 = g"
  by (simp add: shift_def)

lemma shift_shift: "shift (shift g a) b = shift g (a + b)"
  by (simp add: shift_def fun_eq_iff ac_simps)

lemma shift_apply: "shift g k n = g (n + k)"
  by (simp add: shift_def)

lemma sample_params_snd: "snd (sample_params inp g) = shift g 3"
  by (simp add: sample_params_def rng_uniform_def rng_random_def shift_shift numeral_3_eq_3)

lemma sample_params_fst:
  "fst (sample_params inp g) =
     (ui_gamma inp * ((1 - real_of_int (ui_g_var inp) / 100)
        + ((1 + real_of_int (ui_g_var inp) / 100) - (1 - real_of_int (ui_g_var inp) / 100)) * g 0),
      ui_Es inp * ((1 - real_of_int (ui_Es_var inp) / 100)
        + ((1 + real_of_int (ui_Es_var inp) / 100) - (1 - real_of_int (ui_Es_var inp) / 100)) * g 1),
      ui_P inp * ((1 - real_of_int (ui_P_var inp) / 100)
        + ((1 + real_of_int (ui_P_var inp) / 100) - (1 - real_of_int (ui_P_var inp) / 100)) * g 2))"
  by (simp add: sample_params_def rng_uniform_def rng_random_def shift_apply numeral_2_eq_2)

lemma mc_trial_eq:
  "mc_trial inp B g =
     (case trial_passes inp B (fst (sample_params inp g)) of
        Inl e \<Rightarrow> Inl e
      | Inr b \<Rightarrow> Inr (b, shift g 3))"
  using sample_params_snd [of inp g]
  by (cases "sample_params inp g") (simp add: mc_trial_def)

lemma sliding_fs_eq: "sliding_fs P H mu = Inr (if H \<noteq> 0 then P * mu / H else 999)"
  by (simp add: sliding_fs_def py_div_def)

lemma overturning_fs_eq: "overturning_fs P B M = Inr (if M \<noteq> 0 then P * (B / 2) / M else 999)"
  by (simp add: overturning_fs_def py_div_def Let_def)

lemma settlement_elastic_eq:
  "settlement_elastic P B L Es nu influence_I =
     (if B * L = 0 \<or> Es = 0 then Inl ZeroDivisionError
      else Inr (influence_I * (P / (B * L)) * B * (1 - nu ^ 2) / Es))"
  by (simp add: settlement_elastic_def py_div_def Let_def)

lemma trial_passes_eq:
  "trial_passes inp B (gamma_r, Es_r, P_r) =
     (if ui_FS_bearing inp = 0 \<or> B * ui_L inp = 0 \<or> Es_r = 0 then Inl ZeroDivisionError
      else Inr (bearing_capacity_q_ult (ui_c inp) gamma_r (ui_Df inp) B (ui_phi inp) / ui_FS_bearing inp
                  \<ge> P_r / (B * ui_L inp)
                \<and> (if ui_H inp \<noteq> 0 then P_r * ui_mu inp / ui_H inp else 999) \<ge> FS_slide_req
                \<and> (if ui_M inp \<noteq> 0 then P_r * (B / 2) / ui_M inp else 999) \<ge> FS_ot_req
                \<and> ui_I inp * (P_r / (B * ui_L inp)) * B * (1 - ui_nu inp ^ 2) / Es_r * 1000
                    \<le> settle_limit))"
  by (simp add: trial_passes_def sliding_fs_eq overturning_fs_eq settlement_elastic_eq py_div_def Let_def)

lemma pass_count_0: "pass_count inp B g 0 = 0"
  by (simp add: pass_count_def)

lemma pass_count_Suc:
  "pass_count inp B g (Suc n) =
     (if trial_passes inp B (fst (sample_params inp g)) = Inr True then 1 else 0)
     + pass_count inp B (shift g 3) n"
proof -
  have upt: "[0..<Suc n] = 0 # map Suc [0..<n]"
    by (simp add: upt_conv_Cons map_Suc_upt del: upt_Suc)
  have sh: "\<And>j. shift (shift g 3) (3 * j) = shift g (3 * Suc j)"
    by (simp add: shift_shift)
  show ?thesis
    unfolding pass_count_def upt
    by (simp add: filter_map o_def sh shift_zero del: upt_Suc)
qed

lemma trial_loop_Inr:
  "trial_loop inp B n acc g = Inr (cnt, g') \<Longrightarrow>
     cnt = acc + pass_count inp B g n \<and> g' = shift g (3 * n)"
proof (induction n arbitrary: acc g)
  case 0
  then show ?case by (simp add: pass_count_0 shift_zero)
next
  case (Suc n)
  from Suc.prems obtain b where
    tp: "trial_passes inp B (fst (sample_params inp g)) = Inr b"
    and rest: "trial_loop inp B n (if b then acc + 1 else acc) (shift g 3) = Inr (cnt, g')"
    by (auto simp: mc_trial_eq split: sum.splits)
  from Suc.IH [OF rest] have
    c: "cnt = (if b then acc + 1 else acc) + pass_count inp B (shift g 3) n"
    and s: "g' = shift (shift g 3) (3 * n)"
    by simp_all
  from c tp have "cnt = acc + pass_count inp B g (Suc n)"
    by (simp add: pass_count_Suc)
  moreover from s have "g' = shift g (3 * Suc n)"
    by (simp add: shift_shift)
  ultimately show ?case by simp
qed

lemma trial_loop_total:
  "(\<And>j. j < n \<Longrightarrow> \<exists>b. trial_passes inp B (fst (sample_params inp (shift g (3 * j)))) = Inr b) \<Longrightarrow>
     trial_loop inp B n acc g = Inr (acc + pass_count inp B g n, shift g (3 * n))"
proof (induction n arbitrary: acc g)
  case 0
  then show ?case by (simp add: pass_count_0 shift_zero)
next
  case (Suc n)
  from Suc.prems [of 0] obtain b where
    tp: "trial_passes inp B (fst (sample_params inp g)) = Inr b"
    by (auto simp: shift_zero)
  have later: "\<exists>b. trial_passes inp B (fst (sample_params inp (shift (shift g 3) (3 * j)))) = Inr b"
    if "j < n" for j
    using Suc.prems [of "Suc j"] that by (simp add: shift_shift)
  have "trial_loop inp B n (if b then acc + 1 else acc) (shift g 3) =
          Inr ((if b then acc + 1 else acc) + pass_count inp B (shift g 3) n,
               shift (shift g 3) (3 * n))"
    by (rule Suc.IH) (rule later)
  with tp show ?case
    by (simp add: mc_trial_eq pass_count_Suc shift_shift)
qed

lemma width_loop_Inr:
  "width_loop inp ws res (shift g (3 * nat (ui_iterations inp) * k)) = Inr rs \<Longrightarrow>
     rs = res @ map (\<lambda>(i, B). (B, reliability_percent inp B (shift g (3 * nat (ui_iterations inp) * i))))
                    (enumerate k ws)"
proof (induction ws arbitrary: res k)
  case Nil
  then show ?case by simp
next
  case (Cons B Bs)
  let ?N = "nat (ui_iterations inp)"
  let ?g = "shift g (3 * ?N * k)"
  from Cons.prems obtain cnt g' ratio where
    tl: "trial_loop inp B ?N 0 ?g = Inr (cnt, g')"
    and dv: "py_div (real cnt) (real_of_int (ui_iterations inp)) = Inr ratio"
    and rest: "width_loop inp Bs (res @ [(B, ratio * 100)]) g' = Inr rs"
    by (auto simp: Let_def split: sum.splits)
  from trial_loop_Inr [OF tl] have
    cnt: "cnt = pass_count inp B ?g ?N" and g': "g' = shift g (3 * ?N * Suc k)"
    by (simp_all add: shift_shift algebra_simps)
  from dv cnt have ratio: "ratio * 100 = reliability_percent inp B ?g"
    by (simp add: py_div_def reliability_percent_def split: if_splits)
  from rest have "rs = (res @ [(B, ratio * 100)]) @
      map (\<lambda>(i, B). (B, reliability_percent inp B (shift g (3 * ?N * i)))) (enumerate (Suc k) Bs)"
    unfolding g' by (rule Cons.IH)
  with ratio show ?case by simp
qed

lemma mc_study_Inr: "mc_study inp ws g = Inr rs \<Longrightarrow> rs = study_results inp ws g"
  using width_loop_Inr [of inp ws "[]" g 0 rs]
  by (simp add: mc_study_def study_results_def shift_zero)

lemma width_loop_total:
  assumes it: "ui_iterations inp \<noteq> 0"
    and ok: "\<And>B m. B \<in> set ws \<Longrightarrow>
               \<exists>b. trial_passes inp B (fst (sample_params inp (shift g m))) = Inr b"
  shows "\<exists>rs. width_loop inp ws res (shift g k) = Inr rs"
  using ok
proof (induction ws arbitrary: res k)
  case Nil
  then show ?case by simp
next
  case (Cons B Bs)
  let ?N = "nat (ui_iterations inp)"
  have "trial_loop inp B ?N 0 (shift g k) =
          Inr (0 + pass_count inp B (shift g k) ?N, shift (shift g k) (3 * ?N))"
    by (rule trial_loop_total) (use Cons.prems [of B] in \<open>simp add: shift_shift\<close>)
  moreover have "\<exists>rs. width_loop inp Bs res' (shift g (k + 3 * ?N)) = Inr rs" for res'
    by (rule Cons.IH) (use Cons.prems in simp)
  ultimately show ?case
    using it by (simp add: py_div_def Let_def shift_shift)
qed

lemma mc_study_total:
  assumes "ui_iterations inp \<noteq> 0"
    and "\<And>B m. B \<in> set ws \<Longrightarrow>
               \<exists>b. trial_passes inp B (fst (sample_params inp (shift g m))) = Inr b"
  shows "mc_study inp ws g = Inr (study_results inp ws g)"
proof -
  from width_loop_total [OF assms, of ws "[]" 0] obtain rs where
    "mc_study inp ws g = Inr rs"
    by (auto simp: mc_study_def shift_zero)
  with mc_study_Inr [OF this] show ?thesis by simp
qed

lemma study_results_widths: "map fst (study_results inp ws g) = ws"
proof -
  have "map fst (map (\<lambda>(i, B). (B, f i B)) (enumerate k ws)) = ws" for f :: "nat \<Rightarrow> real \<Rightarrow> real" and k
    by (induction ws arbitrary: k) simp_all
  then show ?thesis by (simp add: study_results_def)
qed

lemma study_results_nth:
  "i < length ws \<Longrightarrow>
     study_results inp ws g ! i =
       (ws ! i, reliability_percent inp (ws ! i) (shift g (3 * nat (ui_iterations inp) * i)))"
  by (simp add: study_results_def nth_enumerate_eq)

lemma sampled_modulus_nonzero:
  assumes "Es \<noteq> 0" "0 \<le> v" "v < 100" "0 \<le> u"
  shows "Es * ((1 - real_of_int v / 100)
           + ((1 + real_of_int v / 100) - (1 - real_of_int v / 100)) * u) \<noteq> (0::real)"
proof -
  have "0 < 1 - real_of_int v / 100" using assms by simp
  moreover have "0 \<le> ((1 + real_of_int v / 100) - (1 - real_of_int v / 100)) * u"
    using assms by simp
  ultimately have "0 < (1 - real_of_int v / 100)
           + ((1 + real_of_int v / 100) - (1 - real_of_int v / 100)) * u"
    by linarith
  with assms(1) show ?thesis by simp
qed

lemma trial_passes_defined:
  assumes "ui_FS_bearing inp \<noteq> 0" "ui_L inp \<noteq> 0" "B \<noteq> 0" "ui_Es inp \<noteq> 0"
    "0 \<le> ui_Es_var inp" "ui_Es_var inp < 100" "\<forall>n. 0 \<le> g n"
  shows "\<exists>b. trial_passes inp B (fst (sample_params inp (shift g m))) = Inr b"
proof -
  have "0 \<le> shift g m 1" using assms(7) by (simp add: shift_apply)
  from sampled_modulus_nonzero [OF assms(4) assms(5) assms(6) this] assms(1,2,3)
  show ?thesis
    by (simp add: sample_params_fst trial_passes_eq)
qed

lemma sample_params_prefix:
  "\<forall>k<3. g k = g' k \<Longrightarrow> fst (sample_params inp g) = fst (sample_params inp g')"
  by (simp add: sample_params_fst)

lemma trial_loop_prefix:
  "\<forall>k<3 * n. g k = g' k \<Longrightarrow>
     map_sum (\<lambda>e. e) fst (trial_loop inp B n acc g) = map_sum (\<lambda>e. e) fst (trial_loop inp B n acc g')"
proof (induction n arbitrary: acc g g')
  case 0
  then show ?case by simp
next
  case (Suc n)
  from Suc.prems have "\<forall>k<3. g k = g' k" by simp
  then have smp: "fst (sample_params inp g) = fst (sample_params inp g')"
    by (rule sample_params_prefix)
  from Suc.prems have "\<forall>k<3 * n. shift g 3 k = shift g' 3 k"
    by (simp add: shift_apply)
  then have ih: "map_sum (\<lambda>e. e) fst (trial_loop inp B n acc' (shift g 3)) =
             map_sum (\<lambda>e. e) fst (trial_loop inp B n acc' (shift g' 3))" for acc'
    by (rule Suc.IH)
  show ?case
  proof (cases "trial_passes inp B (fst (sample_params inp g'))")
    case (Inl e)
    with smp show ?thesis by (simp add: mc_trial_eq)
  next
    case (Inr b)
    with smp ih [of "if b then acc + 1 else acc"] show ?thesis
      by (simp add: mc_trial_eq)
  qed
qed

lemma width_loop_prefix:
  "\<forall>k<3 * nat (ui_iterations inp) * length ws. g k = g' k \<Longrightarrow>
     width_loop inp ws res g = width_loop inp ws res g'"
proof (induction ws arbitrary: res g g')
  case Nil
  then show ?case by simp
next
  case (Cons B Bs)
  let ?N = "nat (ui_iterations inp)"
  from Cons.prems have pre: "\<forall>k<3 * ?N. g k = g' k"
    by (simp add: algebra_simps)
  have tl: "map_sum (\<lambda>e. e) fst (trial_loop inp B ?N 0 g) = map_sum (\<lambda>e. e) fst (trial_loop inp B ?N 0 g')"
    using pre by (rule trial_loop_prefix)
  from Cons.prems have "\<forall>k<3 * ?N * length Bs. shift g (3 * ?N) k = shift g' (3 * ?N) k"
    by (simp add: shift_apply algebra_simps)
  then have rest: "width_loop inp Bs res' (shift g (3 * ?N)) = width_loop inp Bs res' (shift g' (3 * ?N))"
    for res'
    by (rule Cons.IH)
  show ?case
  proof (cases "trial_loop inp B ?N 0 g")
    case (Inl e)
    with tl have "trial_loop inp B ?N 0 g' = Inl e"
      by (cases "trial_loop inp B ?N 0 g'") simp_all
    with Inl show ?thesis by simp
  next
    case (Inr r)
    obtain cnt g1 where r: "r = (cnt, g1)" by (cases r)
    from Inr r tl obtain g1' where r': "trial_loop inp B ?N 0 g' = Inr (cnt, g1')"
      by (cases "trial_loop inp B ?N 0 g'") auto
    from trial_loop_Inr [of inp B ?N 0 g cnt g1] Inr r have g1: "g1 = shift g (3 * ?N)" by simp
    from trial_loop_Inr [OF r'] have g1': "g1' = shift g' (3 * ?N)" by simp
    from Inr r r' g1 g1' rest show ?thesis
      by (simp add: Let_def split: sum.splits)
  qed
qed

subsection \<open>The sample data evaluated\<close>

lemma pass_count_all:
  "(\<And>j. j < n \<Longrightarrow> trial_passes inp B (fst (sample_params inp (shift g (3 * j)))) = Inr True) \<Longrightarrow>
     pass_count inp B g n = n"
  by (simp add: pass_count_def)

lemma pass_count_none:
  "(\<And>j. j < n \<Longrightarrow> trial_passes inp B (fst (sample_params inp (shift g (3 * j)))) \<noteq> Inr True) \<Longrightarrow>
     pass_count inp B g n = 0"
  by (simp add: pass_count_def)

lemmas example_simps =
  example_inputs_def example_rng_def sample_params_fst trial_passes_eq shift_apply
  bearing_capacity_q_ult_def radians_def FS_slide_req_def FS_ot_req_def settle_limit_def
  Let_def power2_eq_square

lemma example_first_block:
  "j < 50 \<Longrightarrow> trial_passes example_inputs 2 (fst (sample_params example_inputs (shift example_rng (3 * j)))) = Inr True"
  by (simp add: example_simps)

lemma example_first_block3:
  "j < 50 \<Longrightarrow> trial_passes example_inputs 3 (fst (sample_params example_inputs (shift example_rng (3 * j)))) = Inr True"
  by (simp add: example_simps)

lemma example_second_block:
  "trial_passes example_inputs 2 (fst (sample_params example_inputs (shift (shift example_rng 150) (3 * j)))) = Inr False"
  by (simp add: example_simps)

lemma example_defined:
  "\<exists>b. trial_passes example_inputs B (fst (sample_params example_inputs (shift example_rng m))) = Inr b" if "B \<noteq> 0"
  using that by (simp add: example_simps)

lemma example_iterations: "ui_iterations example_inputs \<noteq> 0"
  by (simp add: example_inputs_def)

lemma example_study_single: "mc_study example_inputs [2] example_rng = Inr [(2, 100)]"
proof -
  have "mc_study example_inputs [2] example_rng = Inr (study_results example_inputs [2] example_rng)"
    by (rule mc_study_total [OF example_iterations]) (simp add: example_defined)
  moreover have "pass_count example_inputs 2 example_rng 50 = 50"
    by (rule pass_count_all) (rule example_first_block)
  ultimately show ?thesis
    by (simp add: study_results_def reliability_percent_def shift_zero example_inputs_def)
qed

lemma example_study_pair: "mc_study example_inputs [3, 2] example_rng = Inr [(3, 100), (2, 0)]"
proof -
  have "mc_study example_inputs [3, 2] example_rng = Inr (study_results example_inputs [3, 2] example_rng)"
    by (rule mc_study_total [OF example_iterations]) (auto simp add: example_defined)
  moreover have "pass_count example_inputs 3 example_rng 50 = 50"
    by (rule pass_count_all) (rule example_first_block3)
  moreover have "pass_count example_inputs 2 (shift example_rng 150) 50 = 0"
    by (rule pass_count_none) (simp add: example_second_block)
  ultimately show ?thesis
    by (simp add: study_results_def reliability_percent_def shift_zero example_inputs_def)
qed

lemma example_rng_nonneg: "\<forall>n. 0 \<le> example_rng n"
  by (simp add: example_rng_def)

lemma example_study_first: "mc_study example_inputs [3] example_rng = Inr [(3, 100)]"
proof -
  have "mc_study example_inputs [3] example_rng = Inr (study_results example_inputs [3] example_rng)"
    by (rule mc_study_total [OF example_iterations]) (simp add: example_defined)
  moreover have "pass_count example_inputs 3 example_rng 50 = 50"
    by (rule pass_count_all) (rule example_first_block3)
  ultimately show ?thesis
    by (simp add: study_results_def reliability_percent_def shift_zero example_inputs_def)
qed

lemma example_exact_study:
  "mc_study example_inputs_exact [3, 2] example_rng = Inr [(3, 100), (2, 0)]"
proof -
  have it: "ui_iterations example_inputs_exact \<noteq> 0"
    by (simp add: example_inputs_exact_def example_inputs_def)
  have "mc_study example_inputs_exact [3, 2] example_rng =
          Inr (study_results example_inputs_exact [3, 2] example_rng)"
    by (rule mc_study_total [OF it])
       (auto simp add: example_inputs_exact_def example_simps)
  moreover have "pass_count example_inputs_exact 3 g 50 = 50" for g
    by (rule pass_count_all) (simp add: example_inputs_exact_def example_simps)
  moreover have "pass_count example_inputs_exact 2 g 50 = 0" for g
    by (rule pass_count_none) (simp add: example_inputs_exact_def example_simps)
  ultimately show ?thesis
    by (simp add: study_results_def reliability_percent_def example_inputs_exact_def
        example_inputs_def)
qed

subsection \<open>The parser loop\<close>




subsection \<open>No uncertainty\<close>

lemma zero_uncertainty_sample:
  assumes "ui_g_var inp = 0" and "ui_P_var inp = 0" and "ui_Es_var inp = 0"
  shows "fst (sample_params inp g) = (ui_gamma inp, ui_Es inp, ui_P inp)"
  using assms by (simp add: sample_params_fst)

lemma zero_uncertainty_percent:
  assumes "ui_g_var inp = 0" and "ui_P_var inp = 0" and "ui_Es_var inp = 0"
    and "1 \<le> ui_iterations inp"
  shows "reliability_percent inp B g = 0 \<or> reliability_percent inp B g = 100"
proof (cases "trial_passes inp B (ui_gamma inp, ui_Es inp, ui_P inp) = Inr True")
  case True
  have "pass_count inp B g (nat (ui_iterations inp)) = nat (ui_iterations inp)"
    by (rule pass_count_all) (simp add: zero_uncertainty_sample [OF assms(1-3)] True)
  with assms(4) show ?thesis by (simp add: reliability_percent_def)
next
  case False
  have "pass_count inp B g (nat (ui_iterations inp)) = 0"
    by (rule pass_count_none) (simp add: zero_uncertainty_sample [OF assms(1-3)] False)
  then show ?thesis by (simp add: reliability_percent_def)
qed

subsection \<open>The sample sequence of a run\<close>

lemma trial_sample_eq: "trial_sample inp g k = fst (sample_params inp (shift g (3 * k)))"
  by (simp add: trial_sample_def perturbed_def sample_params_fst shift_apply ac_simps)

lemma mc_trial_sample:
  "mc_trial inp B g =
     (case trial_passes inp B (trial_sample inp g 0) of
        Inl e \<Rightarrow> Inl e
      | Inr b \<Rightarrow> Inr (b, shift g 3))"
  by (simp add: mc_trial_eq trial_sample_eq shift_zero)

lemma reliability_percent_samples:
  "reliability_percent inp B (shift g (3 * nat (ui_iterations inp) * i)) =
     100 * real (length (filter
                   (\<lambda>j. trial_passes inp B (trial_sample inp g (nat (ui_iterations inp) * i + j)) = Inr True)
                   [0..<nat (ui_iterations inp)]))
       / real_of_int (ui_iterations inp)"
proof -
  have "shift (shift g (3 * nat (ui_iterations inp) * i)) (3 * j) =
          shift g (3 * (nat (ui_iterations inp) * i + j))" for j
    by (simp add: shift_shift algebra_simps)
  then show ?thesis
    by (simp add: reliability_percent_def pass_count_def trial_sample_eq)
qed

lemma study_results_samples:
  "study_results inp ws g =
     map (\<lambda>(i, B).
            (B, 100 * real (length (filter
                   (\<lambda>j. trial_passes inp B (trial_sample inp g (nat (ui_iterations inp) * i + j)) = Inr True)
                   [0..<nat (ui_iterations inp)]))
                 / real_of_int (ui_iterations inp)))
         (enumerate 0 ws)"
  by (simp add: study_results_def reliability_percent_samples)

lemma example_third_first_trial:
  "trial_passes example_inputs 2 (fst (sample_params example_inputs example_rng3)) = Inr False"
  by (simp add: example_inputs_def example_rng3_def sample_params_fst trial_passes_eq
      bearing_capacity_q_ult_def radians_def FS_slide_req_def FS_ot_req_def settle_limit_def
      Let_def power2_eq_square)

lemma example_third_later_trials:
  "j < 49 \<Longrightarrow>
     trial_passes example_inputs 2
       (fst (sample_params example_inputs (shift (shift example_rng3 3) (3 * j)))) = Inr True"
  by (simp add: example_inputs_def example_rng3_def sample_params_fst trial_passes_eq shift_apply
      bearing_capacity_q_ult_def radians_def FS_slide_req_def FS_ot_req_def settle_limit_def
      Let_def power2_eq_square)

lemma example_study_third: "mc_study example_inputs [2] example_rng3 = Inr [(2, 98)]"
proof -
  have defined: "\<exists>b. trial_passes example_inputs B (fst (sample_params example_inputs (shift example_rng3 m))) = Inr b"
    if "B \<noteq> 0" for B m
    using that by (simp add: example_inputs_def sample_params_fst trial_passes_eq)
  have "mc_study example_inputs [2] example_rng3 = Inr (study_results example_inputs [2] example_rng3)"
    by (rule mc_study_total [OF example_iterations]) (simp add: defined)
  moreover have later: "pass_count example_inputs 2 (shift example_rng3 3) 49 = 49"
    by (rule pass_count_all) (rule example_third_later_trials)
  from pass_count_Suc [of example_inputs 2 example_rng3 49] example_third_first_trial later
  have "pass_count example_inputs 2 example_rng3 50 = 49"
    by simp
  ultimately show ?thesis
    by (simp add: study_results_def reliability_percent_def shift_zero example_inputs_def)
qed

subsection \<open>The bearing capacity as a function of the width\<close>

lemma bearing_capacity_factors:
  "bearing_capacity_q_ult c gamma Df B phi =
     c * (514 / 100) + gamma * Df * Nq_spec phi + (5 / 10) * gamma * B * Ngamma_spec phi"
  by (simp add: bearing_capacity_q_ult_def Nq_spec_def Ngamma_spec_def Let_def)

subsection \<open>Splitting, stripping and parsing\<close>














subsection \<open>The handler and the iteration slider\<close>







section \<open>The claims\<close>

text \<open>
  Claim C1. A Monte Carlo trial on a sampled triple (unit weight, modulus, load)
  passes exactly when all four checks pass: the allowable bearing pressure
  \<open>q_ult / FS_bearing\<close> is at least the applied pressure \<open>P_r / (B * L)\<close>, the
  sliding factor is at least 1.5, the overturning factor is at least 2, and the
  settlement in millimetres is at most 25. The outcome is the conjunction of the
  four. The three divisors of the trial must be non-zero, otherwise the trial raises.
\<close>

theorem trial_passes_all_four:
  assumes "ui_FS_bearing inp \<noteq> 0" and "B * ui_L inp \<noteq> 0" and "Es_r \<noteq> 0"
  shows "trial_passes inp B (gamma_r, Es_r, P_r) =
    Inr (bearing_capacity_q_ult (ui_c inp) gamma_r (ui_Df inp) B (ui_phi inp) / ui_FS_bearing inp
           \<ge> P_r / (B * ui_L inp)
         \<and> (case sliding_fs P_r (ui_H inp) (ui_mu inp) of
                Inr FSs \<Rightarrow> FSs \<ge> FS_slide_req | Inl e \<Rightarrow> False)
         \<and> (case overturning_fs P_r B (ui_M inp) of
                Inr FSo \<Rightarrow> FSo \<ge> FS_ot_req | Inl e \<Rightarrow> False)
         \<and> (case settlement_elastic P_r B (ui_L inp) Es_r (ui_nu inp) (ui_I inp) of
                Inr s \<Rightarrow> s * 1000 \<le> settle_limit | Inl e \<Rightarrow> False))"
  using assms
  by (simp add: trial_passes_eq sliding_fs_eq overturning_fs_eq settlement_elastic_eq)

theorem trial_passes_all_four_witness:
  "ui_FS_bearing example_inputs \<noteq> 0 \<and> 2 * ui_L example_inputs \<noteq> 0 \<and> (30000::real) \<noteq> 0
   \<and> trial_passes example_inputs 2 (18, 30000, 350) = Inr True
   \<and> trial_passes example_inputs 2 (18, 30000, 620) = Inr False"
proof -
  have h1: "ui_FS_bearing example_inputs \<noteq> 0" by (simp add: example_inputs_def)
  have h2: "2 * ui_L example_inputs \<noteq> 0" by (simp add: example_inputs_def)
  have h3: "(30000::real) \<noteq> 0" by simp
  from trial_passes_all_four [OF h1 h2 h3, of 18 350]
       trial_passes_all_four [OF h1 h2 h3, of 18 620] h1 h2
  show ?thesis
    by (simp add: sliding_fs_eq overturning_fs_eq settlement_elastic_eq example_inputs_def
        bearing_capacity_q_ult_def FS_slide_req_def FS_ot_req_def settle_limit_def power2_eq_square)
qed

text \<open>
  Claim C2. For at least one iteration and inputs on which no trial divides by zero
  (non-zero bearing factor, length, widths and modulus, a modulus bound below 100
  percent, non-negative random values), the study runs exactly \<open>iterations\<close>
  trials for each width, each trial taking the next three values of the sequence,
  counts the passing ones, and returns for each width, in the order of the input
  list, the width with \<open>100 * passCount / iterations\<close>.
\<close>

theorem study_one_result_per_width:
  assumes "1 \<le> ui_iterations inp"
    and "ui_FS_bearing inp \<noteq> 0" and "ui_L inp \<noteq> 0" and "\<forall>B\<in>set ws. B \<noteq> 0"
    and "ui_Es inp \<noteq> 0" and "0 \<le> ui_Es_var inp" and "ui_Es_var inp < 100"
    and "\<forall>n. 0 \<le> g n"
  shows "mc_study inp ws g = Inr (study_results inp ws g)
    \<and> map fst (study_results inp ws g) = ws
    \<and> length (study_results inp ws g) = length ws
    \<and> (\<forall>i<length ws. study_results inp ws g ! i =
          (ws ! i,
           100 * real (pass_count inp (ws ! i) (shift g (3 * nat (ui_iterations inp) * i))
                         (nat (ui_iterations inp)))
               / real_of_int (ui_iterations inp)))
    \<and> (\<forall>i<length ws.
          trial_loop inp (ws ! i) (nat (ui_iterations inp)) 0 (shift g (3 * nat (ui_iterations inp) * i)) =
            Inr (pass_count inp (ws ! i) (shift g (3 * nat (ui_iterations inp) * i))
                   (nat (ui_iterations inp)),
                 shift g (3 * nat (ui_iterations inp) * i + 3 * nat (ui_iterations inp))))"
proof -
  have defined: "\<exists>b. trial_passes inp B (fst (sample_params inp (shift g m))) = Inr b"
    if "B \<in> set ws" for B m
    using assms that by (intro trial_passes_defined) auto
  have study: "mc_study inp ws g = Inr (study_results inp ws g)"
    using assms(1) defined by (intro mc_study_total) auto
  have len: "length (study_results inp ws g) = length ws"
    using study_results_widths [of inp ws g] by (metis length_map)
  have loop: "trial_loop inp (ws ! i) (nat (ui_iterations inp)) 0 (shift g k) =
      Inr (pass_count inp (ws ! i) (shift g k) (nat (ui_iterations inp)),
           shift g (k + 3 * nat (ui_iterations inp)))" if "i < length ws" for i k
    using trial_loop_total [of "nat (ui_iterations inp)" inp "ws ! i" "shift g k" 0]
      defined [of "ws ! i"] that
    by (simp add: shift_shift)
  show ?thesis
    using study len loop
    by (simp add: study_results_widths study_results_nth reliability_percent_def)
qed

theorem study_one_result_per_width_witness:
  "1 \<le> ui_iterations example_inputs \<and> ui_FS_bearing example_inputs \<noteq> 0
   \<and> ui_L example_inputs \<noteq> 0 \<and> (3::real) \<noteq> 0 \<and> (2::real) \<noteq> 0 \<and> ui_Es example_inputs \<noteq> 0
   \<and> 0 \<le> ui_Es_var example_inputs \<and> ui_Es_var example_inputs < 100
   \<and> mc_study example_inputs [3, 2] example_rng = Inr (study_results example_inputs [3, 2] example_rng)
   \<and> study_results example_inputs [3, 2] example_rng = [(3, 100), (2, 0)]"
proof -
  have h: "1 \<le> ui_iterations example_inputs" "ui_FS_bearing example_inputs \<noteq> 0"
    "ui_L example_inputs \<noteq> 0" "\<forall>B\<in>set [3, 2::real]. B \<noteq> 0" "ui_Es example_inputs \<noteq> 0"
    "0 \<le> ui_Es_var example_inputs" "ui_Es_var example_inputs < 100"
    by (simp_all add: example_inputs_def)
  from study_one_result_per_width [OF h example_rng_nonneg] example_study_pair h
  show ?thesis by simp
qed

text \<open>
  Claim C3. The study is a function of its inputs and of the values the seeded
  generator yields. A trial draws the unit weight factor first, the modulus factor
  second and the load factor third, and leaves the generator three values further;
  the trials of a run, through all widths in order, read the sequence from its
  start, three values each, so that every result is the percentage counted on these
  samples; on inputs where no trial divides by zero the run completes; and two
  sequences that agree on the \<open>3 * iterations * length ws\<close> values the run reads
  give the same results or the same error.
\<close>

theorem study_reproducible:
  "mc_trial inp B g =
     (case trial_passes inp B (trial_sample inp g 0) of
        Inl e \<Rightarrow> Inl e
      | Inr b \<Rightarrow> Inr (b, shift g 3))
   \<and> (mc_study inp ws g = Inr rs \<longrightarrow>
        rs = map (\<lambda>(i, B).
                   (B, 100 * real (length (filter
                          (\<lambda>j. trial_passes inp B
                                  (trial_sample inp g (nat (ui_iterations inp) * i + j)) = Inr True)
                          [0..<nat (ui_iterations inp)]))
                        / real_of_int (ui_iterations inp)))
                 (enumerate 0 ws))
   \<and> (1 \<le> ui_iterations inp \<and> ui_FS_bearing inp \<noteq> 0 \<and> ui_L inp \<noteq> 0 \<and> (\<forall>B\<in>set ws. B \<noteq> 0)
        \<and> ui_Es inp \<noteq> 0 \<and> 0 \<le> ui_Es_var inp \<and> ui_Es_var inp < 100 \<and> (\<forall>n. 0 \<le> g n) \<longrightarrow>
        (\<exists>rs. mc_study inp ws g = Inr rs))
   \<and> ((\<forall>k<3 * nat (ui_iterations inp) * length ws. g k = g' k) \<longrightarrow>
        mc_study inp ws g = mc_study inp ws g')"
proof -
  have total: "\<exists>rs. mc_study inp ws g = Inr rs"
    if h: "1 \<le> ui_iterations inp" "ui_FS_bearing inp \<noteq> 0" "ui_L inp \<noteq> 0" "\<forall>B\<in>set ws. B \<noteq> 0"
      "ui_Es inp \<noteq> 0" "0 \<le> ui_Es_var inp" "ui_Es_var inp < 100" "\<forall>n. 0 \<le> g n"
  proof -
    have "\<exists>b. trial_passes inp B (fst (sample_params inp (shift g m))) = Inr b"
      if "B \<in> set ws" for B m
      using h that by (intro trial_passes_defined) auto
    with h(1) have "mc_study inp ws g = Inr (study_results inp ws g)"
      by (intro mc_study_total) auto
    then show ?thesis by blast
  qed
  show ?thesis
    using mc_trial_sample [of inp B g] mc_study_Inr [of inp ws g rs]
      study_results_samples [of inp ws g] width_loop_prefix [of inp ws g g' "[]"] total
    by (simp add: mc_study_def)
qed

theorem study_reproducible_witness:
  "mc_study example_inputs [3, 2] example_rng = mc_study example_inputs [3, 2] example_rng2
   \<and> example_rng 300 \<noteq> example_rng2 300
   \<and> mc_study example_inputs [2] example_rng = Inr [(2, 100)]
   \<and> mc_study example_inputs [2] example_rng3 = Inr [(2, 98)]
   \<and> trial_sample example_inputs example_rng3 0 = (18, 30000, 620)
   \<and> trial_sample example_inputs example_rng3 1 = (18, 30000, 350)
   \<and> mc_trial example_inputs 2 example_rng3 = Inr (False, shift example_rng3 3)
   \<and> [(2::real, 98::real)] =
       map (\<lambda>(i, B).
              (B, 100 * real (length (filter
                     (\<lambda>j. trial_passes example_inputs B
                             (trial_sample example_inputs example_rng3
                                (nat (ui_iterations example_inputs) * i + j)) = Inr True)
                     [0..<nat (ui_iterations example_inputs)]))
                   / real_of_int (ui_iterations example_inputs)))
          (enumerate 0 [2])"
proof -
  have pre: "\<forall>k<3 * nat (ui_iterations example_inputs) * length [3, 2::real].
               example_rng k = example_rng2 k"
    by (simp add: example_inputs_def example_rng_def example_rng2_def)
  have diff: "example_rng 300 \<noteq> example_rng2 300"
    by (simp add: example_rng_def example_rng2_def)
  have s0: "trial_sample example_inputs example_rng3 0 = (18, 30000, 620)"
    by (simp add: trial_sample_def perturbed_def example_inputs_def example_rng3_def)
  have s1: "trial_sample example_inputs example_rng3 1 = (18, 30000, 350)"
    by (simp add: trial_sample_def perturbed_def example_inputs_def example_rng3_def)
  have t0: "trial_passes example_inputs 2 (18, 30000, 620) = Inr False"
    using example_third_first_trial s0 by (simp add: trial_sample_eq shift_zero)
  from study_reproducible [of example_inputs 2 example_rng3 "[2]" "[(2, 98)]" example_rng3]
       study_reproducible [of example_inputs 2 example_rng "[3, 2]" "[]" example_rng2]
       pre diff s0 s1 t0 example_study_single example_study_third
  show ?thesis
    by simp
qed

text \<open>
  Claim C4, as amended. All widths draw from one shared sequence. Whenever the study
  completes, the pair produced for the width at index \<open>i\<close> is that width with the
  percentage counted on the values from position \<open>3 * iterations * i\<close> on: it
  depends on the width and on its position in the list, not on the values of the
  other entries nor on the entries after it.
\<close>

theorem width_result_by_position:
  assumes "mc_study inp ws g = Inr rs" and "mc_study inp ws' g = Inr rs'"
    and "i < length ws" and "i < length ws'" and "ws ! i = ws' ! i"
  shows "rs ! i = rs' ! i
    \<and> rs ! i = (ws ! i, reliability_percent inp (ws ! i) (shift g (3 * nat (ui_iterations inp) * i)))"
  using assms mc_study_Inr [of inp ws g rs] mc_study_Inr [of inp ws' g rs']
  by (simp add: study_results_nth)

theorem width_result_by_position_witness:
  "mc_study example_inputs [3, 2] example_rng = Inr [(3, 100), (2, 0)]
   \<and> mc_study example_inputs [3] example_rng = Inr [(3, 100)]
   \<and> (0::nat) < length [3, 2::real] \<and> (0::nat) < length [3::real]
   \<and> [3, 2::real] ! 0 = [3] ! 0
   \<and> [(3::real, 100::real), (2, 0)] ! 0 = [(3, 100)] ! 0
   \<and> reliability_percent example_inputs 3 (shift example_rng (3 * nat (ui_iterations example_inputs) * 0)) = 100"
  using width_result_by_position [OF example_study_pair example_study_first, of 0]
    example_study_pair example_study_first
  by simp

text \<open>
  Claim C4 as stated fails: width 2 alone has reliability 100, and the same width
  after width 3, with the same sequence and parameters, has reliability 0.
\<close>

theorem cross_width_counterexample:
  "mc_study example_inputs [2] example_rng = Inr [(2, 100)]
   \<and> mc_study example_inputs [3, 2] example_rng = Inr [(3, 100), (2, 0)]"
  using example_study_single example_study_pair by simp

text \<open>
  Claim C5. With no horizontal load the sliding factor is the sentinel 999, and with
  no overturning moment the overturning factor is the same sentinel, for every
  vertical load, friction coefficient and width; neither call raises.
\<close>

theorem no_demand_sentinel:
  "sliding_fs P 0 mu = Inr 999 \<and> overturning_fs P B 0 = Inr 999"
  by (simp add: sliding_fs_def overturning_fs_def)

text \<open>
  Claim C6, as amended. The helper functions validate nothing.
  \<^verbatim>\<open>settlement_elastic\<close> fails when \<open>B * L\<close> is zero, with the
  \<^verbatim>\<open>ZeroDivisionError\<close> of its first division, and fails when the modulus is
  zero. A negative \<open>B * L\<close> or a negative modulus is not rejected: for a product
  \<open>B * L\<close> of at least a millionth in absolute value, a non-zero modulus and a
  Poisson ratio of at most 1 in absolute value it returns the value of its formula.
  \<^verbatim>\<open>bearing_capacity_q_ult\<close> checks no width: for a friction angle of at most 45
  degrees it returns the value of its formula for every width, zero and negative
  ones included.
\<close>

theorem formula_failures:
  "(B * L = 0 \<longrightarrow> settlement_elastic P B L Es nu influence_I = Inl ZeroDivisionError)
   \<and> (Es = 0 \<longrightarrow> (\<exists>e. settlement_elastic P B L Es nu influence_I = Inl e))
   \<and> (1 \<le> \<bar>B * L\<bar> * 10 ^ 6 \<and> Es \<noteq> 0 \<and> \<bar>nu\<bar> \<le> 1 \<longrightarrow>
        settlement_elastic P B L Es nu influence_I =
          Inr (influence_I * (P / (B * L)) * B * (1 - nu ^ 2) / Es))
   \<and> (phi \<le> 45 \<longrightarrow>
        bearing_capacity_q_ult c gamma Df B phi =
          c * (514 / 100) + gamma * Df * Nq_spec phi + (5 / 10) * gamma * B * Ngamma_spec phi)"
proof -
  have "B * L \<noteq> 0" if "1 \<le> \<bar>B * L\<bar> * 10 ^ 6"
    using that by auto
  then show ?thesis
    by (auto simp: settlement_elastic_eq bearing_capacity_factors)
qed

theorem formula_failures_witness:
  "settlement_elastic 500 0 2 30000 (3 / 10) 1 = Inl ZeroDivisionError
   \<and> (\<exists>e. settlement_elastic 500 2 2 0 (3 / 10) 1 = Inl e)
   \<and> settlement_elastic 500 (- 2) 2 30000 (3 / 10) 1 = Inr (91 / 12000)
   \<and> settlement_elastic 500 2 2 30000 (3 / 10) 1 = Inr (91 / 12000)
   \<and> bearing_capacity_q_ult 20 18 1 (- 2) 30 =
       20 * (514 / 100) + 18 * 1 * Nq_spec 30 + (5 / 10) * 18 * (- 2) * Ngamma_spec 30
   \<and> bearing_capacity_q_ult 20 18 1 0 0 = 1208 / 10"
proof -
  have z: "Nq_spec 0 = 1" "Ngamma_spec 0 = 0"
    by (simp_all add: Nq_spec_def Ngamma_spec_def)
  from formula_failures [of 0 2 500 30000 "3 / 10" 1 0 20 18 1]
       formula_failures [of 2 2 500 0 "3 / 10" 1 0 20 18 1]
       formula_failures [of "- 2" 2 500 30000 "3 / 10" 1 30 20 18 1]
       formula_failures [of 2 2 500 30000 "3 / 10" 1 0 20 18 1]
  show ?thesis
    by (simp add: power2_eq_square z)
qed

text \<open>
  Claim C6 as stated fails: a negative width, with \<open>B * L = - 4\<close>, and a negative
  modulus each give a settlement instead of an error, and the bearing capacity of a
  footing of width \<open>- 2\<close> is computed as for any other width.
\<close>

theorem nonpositive_inputs_counterexample:
  "settlement_elastic 500 (- 2) 2 30000 (3 / 10) 1 = Inr (91 / 12000)
   \<and> settlement_elastic 500 2 2 (- 30000) (3 / 10) 1 = Inr (- (91 / 12000))
   \<and> bearing_capacity_q_ult 20 18 1 (- 2) 0 = 1208 / 10"
  by (simp add: settlement_elastic_eq bearing_capacity_q_ult_def power2_eq_square)





text \<open>
  Claim C9. For a friction angle of 0 the bearing capacity is computed with
  \<open>Nc = 5.14\<close>, \<open>Nq = 1\<close> and \<open>Ngamma = 0\<close>, so that for \<open>c = 20\<close>,
  \<open>gamma = 18\<close>, \<open>Df = 1\<close>, \<open>B = 2\<close> it is \<open>20 * 5.14 + 18 * 1 * 1 + 0 = 120.8\<close>.
\<close>

theorem bearing_capacity_cohesive:
  "bearing_capacity_q_ult c gamma Df B 0 = c * (514 / 100) + gamma * Df * 1 + (5 / 10) * gamma * B * 0
   \<and> bearing_capacity_q_ult 20 18 1 2 0 = 20 * (514 / 100) + 18 * 1 * 1 + 0
   \<and> bearing_capacity_q_ult 20 18 1 2 0 = 1208 / 10"
  by (simp add: bearing_capacity_q_ult_def)

text \<open>
  Claim C10. With the three uncertainty bounds at 0, at least one iteration and
  non-zero bearing factor, length, widths and modulus, every sampled triple is the
  nominal one, the outcome of a trial does not depend on the state of the generator,
  and the study returns for each width a reliability of exactly 0 or exactly 100.
\<close>

theorem zero_uncertainty:
  assumes "ui_g_var inp = 0" and "ui_P_var inp = 0" and "ui_Es_var inp = 0"
    and "1 \<le> ui_iterations inp"
    and "ui_FS_bearing inp \<noteq> 0" and "ui_L inp \<noteq> 0" and "\<forall>B\<in>set ws. B \<noteq> 0"
    and "ui_Es inp \<noteq> 0"
  shows "fst (sample_params inp g) = (ui_gamma inp, ui_Es inp, ui_P inp)
    \<and> (\<forall>B g1 g2. map_sum (\<lambda>e. e) fst (mc_trial inp B g1) = map_sum (\<lambda>e. e) fst (mc_trial inp B g2))
    \<and> mc_study inp ws g = Inr (study_results inp ws g)
    \<and> map fst (study_results inp ws g) = ws
    \<and> (\<forall>r\<in>set (study_results inp ws g). snd r = 0 \<or> snd r = 100)"
proof -
  note smp = zero_uncertainty_sample [OF assms(1-3)]
  have same: "map_sum (\<lambda>e. e) fst (mc_trial inp B g1) = map_sum (\<lambda>e. e) fst (mc_trial inp B g2)"
    for B g1 g2
    by (cases "trial_passes inp B (ui_gamma inp, ui_Es inp, ui_P inp)")
       (simp_all add: mc_trial_eq smp)
  have defined: "\<exists>b. trial_passes inp B (fst (sample_params inp (shift g m))) = Inr b"
    if "B \<in> set ws" for B m
    using assms that by (simp add: smp trial_passes_eq)
  have study: "mc_study inp ws g = Inr (study_results inp ws g)"
    using assms(4) defined by (intro mc_study_total) auto
  have pct: "snd r = 0 \<or> snd r = 100" if "r \<in> set (study_results inp ws g)" for r
  proof -
    have len: "length (study_results inp ws g) = length ws"
      using study_results_widths [of inp ws g] by (metis length_map)
    from that obtain i where "i < length ws" and "r = study_results inp ws g ! i"
      by (auto simp: in_set_conv_nth len)
    then show ?thesis
      using zero_uncertainty_percent [OF assms(1-4)] by (simp add: study_results_nth)
  qed
  from smp same study pct show ?thesis
    by (simp add: study_results_widths)
qed

theorem zero_uncertainty_witness:
  "ui_g_var example_inputs_exact = 0 \<and> ui_P_var example_inputs_exact = 0
   \<and> ui_Es_var example_inputs_exact = 0 \<and> 1 \<le> ui_iterations example_inputs_exact
   \<and> fst (sample_params example_inputs_exact example_rng) = (18, 30000, 500)
   \<and> mc_study example_inputs_exact [3, 2] example_rng =
       Inr (study_results example_inputs_exact [3, 2] example_rng)
   \<and> study_results example_inputs_exact [3, 2] example_rng = [(3, 100), (2, 0)]"
proof -
  have h: "ui_g_var example_inputs_exact = 0" "ui_P_var example_inputs_exact = 0"
    "ui_Es_var example_inputs_exact = 0" "1 \<le> ui_iterations example_inputs_exact"
    "ui_FS_bearing example_inputs_exact \<noteq> 0" "ui_L example_inputs_exact \<noteq> 0"
    "\<forall>B\<in>set [3, 2::real]. B \<noteq> 0" "ui_Es example_inputs_exact \<noteq> 0"
    by (simp_all add: example_inputs_exact_def example_inputs_def)
  have v: "ui_gamma example_inputs_exact = 18" "ui_Es example_inputs_exact = 30000"
    "ui_P example_inputs_exact = 500"
    by (simp_all add: example_inputs_exact_def example_inputs_def)
  from zero_uncertainty [OF h, of example_rng] example_exact_study h(1-4) v
  show ?thesis by simp
qed

end
